theory Spec2Isabelle
  imports Main "HOL-Library.Word" "HOL-Library.Sublist"
begin

unbundle bit_operations_syntax

section \<open>Build configuration\<close>

text \<open>
  The preprocessor symbols that \<^verbatim>\<open>good_fpu_control_registers\<close> tests
  (rts/System/Sync/FPUCheck.cpp). They are fixed per build, so the model takes them as a
  record that every operation receives.
\<close>

record build_config =
  support_snan :: bool  \<comment> \<open>\<^verbatim>\<open>defined(__SUPPORT_SNAN__)\<close>\<close>
  use_gml :: bool  \<comment> \<open>\<^verbatim>\<open>defined(USE_GML)\<close>\<close>
  streflop_sse :: bool  \<comment> \<open>\<^verbatim>\<open>defined(STREFLOP_SSE)\<close>\<close>
  streflop_x87 :: bool  \<comment> \<open>\<^verbatim>\<open>defined(STREFLOP_X87)\<close>\<close>

text \<open>The condition of lines 63, 89 and 106: \<^verbatim>\<open>defined(__SUPPORT_SNAN__) && !defined(USE_GML)\<close>.\<close>

definition strict_snan :: "build_config \<Rightarrow> bool" where
  "strict_snan cfg = (support_snan cfg \<and> \<not> use_gml cfg)"

section \<open>Accepted control words\<close>

text \<open>A C \<^verbatim>\<open>int\<close>: 32 bits. Only bitwise operations and equality are applied to it.\<close>

type_synonym c_int = "32 word"

text \<open>Lines 63 to 73: the \<^verbatim>\<open>static const int\<close> constants of either branch.\<close>

definition sse_a :: "build_config \<Rightarrow> c_int" where
  "sse_a cfg = (if strict_snan cfg then 0x1937 AND 0xFF80 else 0x1D00)"

definition sse_b :: "build_config \<Rightarrow> c_int" where
  "sse_b cfg = (if strict_snan cfg then 0x1925 AND 0xFF80 else 0x1F80)"

definition x87_a :: "build_config \<Rightarrow> c_int" where
  "x87_a cfg = (if strict_snan cfg then 0x0072 AND 0x1F3F else 0x003A)"

definition x87_b :: "build_config \<Rightarrow> c_int" where
  "x87_b cfg = (if strict_snan cfg then 0x003F else 0x003F)"

section \<open>The floating-point environment\<close>

text \<open>
  Modelled from the spec: \<^verbatim>\<open>streflop::fpenv_t\<close> is declared in lib/streflop, which is
  not among the sources. The spec gives the combined layout two independent 16-bit fields
  and the legacy layout a single 16-bit control word; the source's own comments say
  ``struct'' (line 76) and ``short int'' (line 95). Both fields are 16-bit words here. The
  x87 control word is a \<^verbatim>\<open>short int\<close>, so C promotes it to \<^verbatim>\<open>int\<close> by sign extension;
  the MXCSR field holds the 16 defined bits of the register (lines 15 to 21) and is
  promoted by zero extension.
\<close>

type_synonym c_short = "16 word"

record fpenv_t =
  sse_mode :: c_short
  x87_mode :: c_short

definition promote_sse :: "c_short \<Rightarrow> c_int" where
  "promote_sse v = ucast v"

definition promote_x87 :: "c_short \<Rightarrow> c_int" where
  "promote_x87 v = scast v"

text \<open>Lines 80 and 81: the value of \<^verbatim>\<open>ret\<close> in the \<^verbatim>\<open>STREFLOP_SSE\<close> branch.\<close>

definition ret_sse :: "build_config \<Rightarrow> fpenv_t \<Rightarrow> bool" where
  "ret_sse cfg fenv =
     (((promote_sse (sse_mode fenv) AND 0xFF80) = sse_a cfg \<or>
       (promote_sse (sse_mode fenv) AND 0xFF80) = sse_b cfg) \<and>
      ((promote_x87 (x87_mode fenv) AND 0x1F3F) = x87_a cfg \<or>
       (promote_x87 (x87_mode fenv) AND 0x1F3F) = x87_b cfg))"

text \<open>Line 99: the value of \<^verbatim>\<open>ret\<close> in the \<^verbatim>\<open>STREFLOP_X87\<close> branch.\<close>

definition ret_x87 :: "build_config \<Rightarrow> c_short \<Rightarrow> bool" where
  "ret_x87 cfg fenv =
     ((promote_x87 fenv AND 0x1F3F) = x87_a cfg \<or> (promote_x87 fenv AND 0x1F3F) = x87_b cfg)"

section \<open>The log messages\<close>

text \<open>
  The conversion \<^verbatim>\<open>%04X\<close> of printf, applied to an \<^verbatim>\<open>int\<close> argument read as
  unsigned: upper-case hexadecimal digits without leading zeros, then padded with zeros
  on the left to a width of at least four.
\<close>

definition hex_digit :: "nat \<Rightarrow> char" where
  "hex_digit d = ''0123456789ABCDEF'' ! d"

fun hex_digits :: "nat \<Rightarrow> string" where
  "hex_digits n = (if n = 0 then [] else hex_digits (n div 16) @ [hex_digit (n mod 16)])"

definition fmt_04X :: "c_int \<Rightarrow> string" where
  "fmt_04X v = (let ds = hex_digits (unat v) in replicate (4 - length ds) (CHR ''0'') @ ds)"

text \<open>The value of \<^verbatim>\<open>__FUNCTION__\<close> inside the guard.\<close>

definition FUNCTION :: string where
  "FUNCTION = ''good_fpu_control_registers''"

text \<open>The conversion \<^verbatim>\<open>(\"%s\")\<close> that ends each format string.\<close>

definition quoted :: "string \<Rightarrow> string" where
  "quoted label = ''('' @ [CHR 0x22] @ label @ [CHR 0x22] @ '')''"

text \<open>Line 84: the formatted message of the first \<^verbatim>\<open>LOG_L\<close> of the combined layout.\<close>

definition msg_sse :: "build_config \<Rightarrow> fpenv_t \<Rightarrow> string \<Rightarrow> string" where
  "msg_sse cfg fenv label =
     ''['' @ FUNCTION @ ''] Sync warning: (env.sse_mode) MXCSR 0x'' @ fmt_04X (promote_sse (sse_mode fenv)) @
     '' instead of 0x'' @ fmt_04X (sse_a cfg) @ '' or 0x'' @ fmt_04X (sse_b cfg) @ '' '' @ quoted label"

text \<open>Line 85: the second message of the combined layout.\<close>

definition msg_x87 :: "build_config \<Rightarrow> fpenv_t \<Rightarrow> string \<Rightarrow> string" where
  "msg_x87 cfg fenv label =
     ''['' @ FUNCTION @ ''] Sync warning: (env.x87_mode) FPUCW 0x'' @ fmt_04X (promote_x87 (x87_mode fenv)) @
     '' instead of 0x'' @ fmt_04X (x87_a cfg) @ '' or 0x'' @ fmt_04X (x87_b cfg) @ '' '' @ quoted label"

text \<open>Line 102: the message of the legacy layout.\<close>

definition msg_fpucw :: "build_config \<Rightarrow> c_short \<Rightarrow> string \<Rightarrow> string" where
  "msg_fpucw cfg fenv label =
     ''['' @ FUNCTION @ ''] Sync warning: FPUCW 0x'' @ fmt_04X (promote_x87 fenv) @
     '' instead of 0x'' @ fmt_04X (x87_a cfg) @ '' or 0x'' @ fmt_04X (x87_b cfg) @ '' '' @ quoted label"

section \<open>The calling thread and the capabilities the guard consumes\<close>

text \<open>
  Modelled from the spec: the enumerations of log levels, of streflop's precision types and
  of its exception flags are declared in System/Log/ILog.h and lib/streflop, which are not
  among the sources. The guard names \<^verbatim>\<open>L_WARNING\<close>, \<^verbatim>\<open>streflop::Simple\<close>, \<^verbatim>\<open>FE_INVALID\<close>,
  \<^verbatim>\<open>FE_DIVBYZERO\<close> and \<^verbatim>\<open>FE_OVERFLOW\<close>; the other members stand for the rest of each
  enumeration. An expression \<^verbatim>\<open>a | b\<close> over exception flags is the set of its flags.
\<close>

datatype log_level = L_DEBUG | L_INFO | L_WARNING | L_ERROR

datatype precision = Simple | Double | Extended

datatype fpu_exception =
  FE_INVALID | FE_DENORMAL | FE_DIVBYZERO | FE_OVERFLOW | FE_UNDERFLOW | FE_INEXACT

text \<open>What one call does to the outside, in the order in which it does it.\<close>

datatype event =
  FeGetEnv
  | Log log_level string
  | StreflopInit precision
  | FeRaiseExcept "fpu_exception set"

text \<open>
  The state the guard works on: the control words of the calling thread and the trace of
  the calls it has made to its collaborators.
\<close>

record thread_state =
  mxcsr :: c_short
  fpucw :: c_short
  trace :: "event list"

text \<open>
  Modelled from the spec: \<^verbatim>\<open>streflop::fegetenv\<close> is defined in lib/streflop, which is not
  among the sources. It is the capability ``read current environment'': a snapshot of the
  control words of the calling thread, which it leaves as they are.
\<close>

definition fegetenv_sse :: "thread_state \<Rightarrow> fpenv_t \<times> thread_state" where
  "fegetenv_sse s = (\<lparr>sse_mode = mxcsr s, x87_mode = fpucw s\<rparr>, s\<lparr>trace := trace s @ [FeGetEnv]\<rparr>)"

definition fegetenv_x87 :: "thread_state \<Rightarrow> c_short \<times> thread_state" where
  "fegetenv_x87 s = (fpucw s, s\<lparr>trace := trace s @ [FeGetEnv]\<rparr>)"

text \<open>
  Modelled from the spec: the macro \<^verbatim>\<open>LOG_L\<close> comes from System/Log/ILog.h, which is not
  among the sources. It is the capability ``emit a leveled diagnostic message''; the model
  records the level and the formatted message.
\<close>

definition LOG_L :: "log_level \<Rightarrow> string \<Rightarrow> thread_state \<Rightarrow> thread_state" where
  "LOG_L lvl msg s = s\<lparr>trace := trace s @ [Log lvl msg]\<rparr>"

text \<open>
  Modelled from the spec: \<^verbatim>\<open>streflop_init<streflop::Simple>\<close> is defined in lib/streflop,
  which is not among the sources. The spec describes it as forcing ``a single designated
  deterministic precision profile'' and says of that mode that it ``matches one of the
  accepted profiles (it does, by construction)''. The spec does not say which of the two
  it is, so the profile is a parameter of the model. The combined layout has both control
  words written, the legacy layout the x87 control word alone.
\<close>

datatype profile = ProfileA | ProfileB

definition profile_sse :: "build_config \<Rightarrow> profile \<Rightarrow> c_int" where
  "profile_sse cfg p = (case p of ProfileA \<Rightarrow> sse_a cfg | ProfileB \<Rightarrow> sse_b cfg)"

definition profile_x87 :: "build_config \<Rightarrow> profile \<Rightarrow> c_int" where
  "profile_x87 cfg p = (case p of ProfileA \<Rightarrow> x87_a cfg | ProfileB \<Rightarrow> x87_b cfg)"

definition streflop_init_Simple :: "build_config \<Rightarrow> profile \<Rightarrow> thread_state \<Rightarrow> thread_state" where
  "streflop_init_Simple cfg p s =
     (if streflop_sse cfg
      then s\<lparr>mxcsr := ucast (profile_sse cfg p), fpucw := ucast (profile_x87 cfg p),
             trace := trace s @ [StreflopInit Simple]\<rparr>
      else s\<lparr>fpucw := ucast (profile_x87 cfg p), trace := trace s @ [StreflopInit Simple]\<rparr>)"

text \<open>
  Modelled from the spec: \<^verbatim>\<open>streflop::feraiseexcept\<close> is defined in lib/streflop, which
  is not among the sources. It is the capability ``raise masked exceptions'', called with
  the set that the flags \<^verbatim>\<open>FE_INVALID | FE_DIVBYZERO | FE_OVERFLOW\<close> denote; the model
  records the call and the set.
\<close>

definition feraiseexcept :: "fpu_exception set \<Rightarrow> thread_state \<Rightarrow> thread_state" where
  "feraiseexcept excepts s = s\<lparr>trace := trace s @ [FeRaiseExcept excepts]\<rparr>"

section \<open>The guard\<close>

text \<open>
  Lines 57 to 111. The \<^verbatim>\<open>#if defined(STREFLOP_SSE)\<close> branch comes first, the
  \<^verbatim>\<open>#elif defined(STREFLOP_X87)\<close> branch second; a build that defines neither compiles
  an empty body.
\<close>

definition good_fpu_control_registers ::
    "build_config \<Rightarrow> profile \<Rightarrow> string \<Rightarrow> thread_state \<Rightarrow> thread_state" where
  "good_fpu_control_registers cfg p label s =
     (if streflop_sse cfg then
        (case fegetenv_sse s of (fenv, s1) \<Rightarrow>
           if \<not> ret_sse cfg fenv then
             (let s2 = LOG_L L_WARNING (msg_sse cfg fenv label) s1;
                  s3 = LOG_L L_WARNING (msg_x87 cfg fenv label) s2;
                  s4 = streflop_init_Simple cfg p s3
              in if strict_snan cfg
                 then feraiseexcept {FE_INVALID, FE_DIVBYZERO, FE_OVERFLOW} s4
                 else s4)
           else s1)
      else if streflop_x87 cfg then
        (case fegetenv_x87 s of (fenv, s1) \<Rightarrow>
           if \<not> ret_x87 cfg fenv then
             (let s2 = LOG_L L_WARNING (msg_fpucw cfg fenv label) s1;
                  s3 = streflop_init_Simple cfg p s2
              in if strict_snan cfg
                 then feraiseexcept {FE_INVALID, FE_DIVBYZERO, FE_OVERFLOW} s3
                 else s3)
           else s1)
      else s)"

section \<open>Observations on a call\<close>

text \<open>The events that one call adds to the trace.\<close>

definition emitted :: "build_config \<Rightarrow> profile \<Rightarrow> string \<Rightarrow> thread_state \<Rightarrow> event list" where
  "emitted cfg p label s = drop (length (trace s)) (trace (good_fpu_control_registers cfg p label s))"

text \<open>The warning lines among some events, in order.\<close>

fun warning_of :: "event \<Rightarrow> string list" where
  "warning_of (Log lvl msg) = (if lvl = L_WARNING then [msg] else [])"
| "warning_of _ = []"

definition warnings :: "event list \<Rightarrow> string list" where
  "warnings evs = concat (map warning_of evs)"

text \<open>The resets and the raised exception sets among some events, in order.\<close>

fun is_action :: "event \<Rightarrow> bool" where
  "is_action (StreflopInit m) = True"
| "is_action (FeRaiseExcept e) = True"
| "is_action _ = False"

definition actions :: "event list \<Rightarrow> event list" where
  "actions evs = filter is_action evs"

fun is_reset :: "event \<Rightarrow> bool" where
  "is_reset (StreflopInit m) = True"
| "is_reset _ = False"

text \<open>
  Concrete builds and thread states for the scenarios below. \<^verbatim>\<open>USE_GML\<close> is left undefined,
  so the first argument says whether the build is the strict one; the thread starts with
  an empty trace.
\<close>

definition build :: "bool \<Rightarrow> bool \<Rightarrow> bool \<Rightarrow> build_config" where
  "build strict sse x87 = \<lparr>support_snan = strict, use_gml = False, streflop_sse = sse, streflop_x87 = x87\<rparr>"

definition thread :: "c_short \<Rightarrow> c_short \<Rightarrow> thread_state" where
  "thread sse x87 = \<lparr>mxcsr = sse, fpucw = x87, trace = []\<rparr>"

section \<open>How a call unfolds\<close>

declare hex_digits.simps [simp del]

text \<open>Masking a promoted 16-bit field in 32 bits is masking it in 16 bits.\<close>

lemma scast_and_ucast: "scast (w :: 16 word) AND (ucast (m :: 16 word) :: 32 word) = ucast (w AND m)"
proof (rule bit_word_eqI)
  fix n assume "n < LENGTH(32)"
  have m: "bit m n \<Longrightarrow> n < 16" using bit_imp_le_length [of m n] by simp
  have "n < 16 \<Longrightarrow> min 15 n = n" by simp
  with m show "bit (scast w AND (ucast m :: 32 word)) n = bit (ucast (w AND m) :: 32 word) n"
    by (auto simp: bit_simps)
qed

lemma ucast_and_ucast: "ucast (w :: 16 word) AND (ucast (m :: 16 word) :: 32 word) = ucast (w AND m)"
  by (rule bit_word_eqI) (auto simp: bit_simps)

lemma promote_sse_mask: "promote_sse w AND 0xFF80 = ucast (w AND 0xFF80)"
  using ucast_and_ucast [of w "0xFF80"] by (simp add: promote_sse_def)

lemma promote_x87_mask: "promote_x87 w AND 0x1F3F = ucast (w AND 0x1F3F)"
  using scast_and_ucast [of w "0x1F3F"] by (simp add: promote_x87_def)

lemma accepted_values:
  "sse_a cfg = (if strict_snan cfg then 0x1900 else 0x1D00)"
  "sse_b cfg = (if strict_snan cfg then 0x1900 else 0x1F80)"
  "x87_a cfg = (if strict_snan cfg then 0x0032 else 0x003A)"
  "x87_b cfg = 0x003F"
  by (simp_all add: sse_a_def sse_b_def x87_a_def x87_b_def)

lemma good_sse_valid:
  assumes "streflop_sse cfg" and "ret_sse cfg (fst (fegetenv_sse s))"
  shows "good_fpu_control_registers cfg p label s = s\<lparr>trace := trace s @ [FeGetEnv]\<rparr>"
  using assms by (simp add: good_fpu_control_registers_def fegetenv_sse_def)

lemma good_sse_invalid:
  assumes "streflop_sse cfg" and "\<not> ret_sse cfg (fst (fegetenv_sse s))"
  shows "good_fpu_control_registers cfg p label s =
     s\<lparr>mxcsr := ucast (profile_sse cfg p), fpucw := ucast (profile_x87 cfg p),
       trace := trace s @
         [FeGetEnv,
          Log L_WARNING (msg_sse cfg (fst (fegetenv_sse s)) label),
          Log L_WARNING (msg_x87 cfg (fst (fegetenv_sse s)) label),
          StreflopInit Simple] @
         (if strict_snan cfg then [FeRaiseExcept {FE_INVALID, FE_DIVBYZERO, FE_OVERFLOW}] else [])\<rparr>"
  using assms
  by (simp add: good_fpu_control_registers_def fegetenv_sse_def LOG_L_def
      streflop_init_Simple_def feraiseexcept_def Let_def)

lemma good_x87_valid:
  assumes "\<not> streflop_sse cfg" and "streflop_x87 cfg" and "ret_x87 cfg (fst (fegetenv_x87 s))"
  shows "good_fpu_control_registers cfg p label s = s\<lparr>trace := trace s @ [FeGetEnv]\<rparr>"
  using assms by (simp add: good_fpu_control_registers_def fegetenv_x87_def)

lemma good_x87_invalid:
  assumes "\<not> streflop_sse cfg" and "streflop_x87 cfg" and "\<not> ret_x87 cfg (fst (fegetenv_x87 s))"
  shows "good_fpu_control_registers cfg p label s =
     s\<lparr>fpucw := ucast (profile_x87 cfg p),
       trace := trace s @
         [FeGetEnv,
          Log L_WARNING (msg_fpucw cfg (fst (fegetenv_x87 s)) label),
          StreflopInit Simple] @
         (if strict_snan cfg then [FeRaiseExcept {FE_INVALID, FE_DIVBYZERO, FE_OVERFLOW}] else [])\<rparr>"
  using assms
  by (simp add: good_fpu_control_registers_def fegetenv_x87_def LOG_L_def
      streflop_init_Simple_def feraiseexcept_def Let_def)

lemma good_neither:
  assumes "\<not> streflop_sse cfg" and "\<not> streflop_x87 cfg"
  shows "good_fpu_control_registers cfg p label s = s"
  using assms by (simp add: good_fpu_control_registers_def)

lemma emitted_sse_valid:
  assumes "streflop_sse cfg" and "ret_sse cfg (fst (fegetenv_sse s))"
  shows "emitted cfg p label s = [FeGetEnv]"
  by (simp add: emitted_def good_sse_valid [OF assms])

lemma emitted_sse_invalid:
  assumes "streflop_sse cfg" and "\<not> ret_sse cfg (fst (fegetenv_sse s))"
  shows "emitted cfg p label s =
         [FeGetEnv,
          Log L_WARNING (msg_sse cfg (fst (fegetenv_sse s)) label),
          Log L_WARNING (msg_x87 cfg (fst (fegetenv_sse s)) label),
          StreflopInit Simple] @
         (if strict_snan cfg then [FeRaiseExcept {FE_INVALID, FE_DIVBYZERO, FE_OVERFLOW}] else [])"
  by (simp add: emitted_def good_sse_invalid [OF assms])

lemma emitted_x87_valid:
  assumes "\<not> streflop_sse cfg" and "streflop_x87 cfg" and "ret_x87 cfg (fst (fegetenv_x87 s))"
  shows "emitted cfg p label s = [FeGetEnv]"
  by (simp add: emitted_def good_x87_valid [OF assms])

lemma emitted_x87_invalid:
  assumes "\<not> streflop_sse cfg" and "streflop_x87 cfg" and "\<not> ret_x87 cfg (fst (fegetenv_x87 s))"
  shows "emitted cfg p label s =
         [FeGetEnv,
          Log L_WARNING (msg_fpucw cfg (fst (fegetenv_x87 s)) label),
          StreflopInit Simple] @
         (if strict_snan cfg then [FeRaiseExcept {FE_INVALID, FE_DIVBYZERO, FE_OVERFLOW}] else [])"
  by (simp add: emitted_def good_x87_invalid [OF assms])

lemma emitted_neither:
  assumes "\<not> streflop_sse cfg" and "\<not> streflop_x87 cfg"
  shows "emitted cfg p label s = []"
  by (simp add: emitted_def good_neither [OF assms])

lemma trace_extends:
  "trace (good_fpu_control_registers cfg p label s) = trace s @ emitted cfg p label s"
proof (cases "streflop_sse cfg")
  case True
  then show ?thesis
    by (cases "ret_sse cfg (fst (fegetenv_sse s))")
       (simp_all add: good_sse_valid good_sse_invalid emitted_sse_valid emitted_sse_invalid)
next
  case sse: False
  show ?thesis
  proof (cases "streflop_x87 cfg")
    case True
    with sse show ?thesis
      by (cases "ret_x87 cfg (fst (fegetenv_x87 s))")
         (simp_all add: good_x87_valid good_x87_invalid emitted_x87_valid emitted_x87_invalid)
  next
    case False
    with sse show ?thesis by (simp add: good_neither emitted_neither)
  qed
qed

section \<open>The \<^verbatim>\<open>%04X\<close> conversion\<close>

text \<open>A value below \<open>16 ^ k\<close> has at most \<open>k\<close> hexadecimal digits.\<close>

lemma hex_digits_length: "n < 16 ^ k \<Longrightarrow> length (hex_digits n) \<le> k"
proof (induction k arbitrary: n)
  case 0
  then show ?case by (simp add: hex_digits.simps)
next
  case (Suc k)
  show ?case
  proof (cases "n = 0")
    case True
    then show ?thesis by (simp add: hex_digits.simps)
  next
    case False
    from Suc.prems have "n div 16 < 16 ^ k" by (simp add: less_mult_imp_div_less mult.commute)
    then have "length (hex_digits (n div 16)) \<le> k" by (rule Suc.IH)
    with False show ?thesis by (subst hex_digits.simps) simp
  qed
qed

lemma fmt_04X_four: "unat v < 65536 \<Longrightarrow> length (fmt_04X v) = 4"
  using hex_digits_length [of "unat v" 4] by (simp add: fmt_04X_def Let_def)

lemma fmt_04X_sse_four: "length (fmt_04X (promote_sse v)) = 4"
proof -
  have "unat (ucast v :: 32 word) = take_bit 32 (unat v)" by (simp add: unsigned_ucast_eq)
  also have "\<dots> \<le> unat v" by (rule take_bit_nat_less_eq_self)
  also have "unat v < 65536" using unsigned_less [of v, where ?'a = nat] by simp
  finally show ?thesis by (simp add: fmt_04X_four promote_sse_def)
qed

lemma scast_positive: "\<not> bit (v :: 16 word) 15 \<Longrightarrow> (scast v :: 32 word) = ucast v"
proof (rule bit_word_eqI)
  fix n assume nb: "\<not> bit v 15" and "n < LENGTH(32)"
  have "bit v n \<Longrightarrow> n < 15"
    using bit_imp_le_length [of v n] nb by (cases "n = 15") auto
  moreover have "n < 15 \<Longrightarrow> min 15 n = n" by simp
  moreover have "15 \<le> n \<Longrightarrow> min 15 n = 15" by simp
  ultimately show "bit (scast v :: 32 word) n = bit (ucast v :: 32 word) n"
    using nb by (cases "n < 15") (auto simp: bit_simps)
qed

lemma fmt_04X_x87_four: "\<not> bit v 15 \<Longrightarrow> length (fmt_04X (promote_x87 v)) = 4"
  using fmt_04X_sse_four [of v] by (simp add: promote_x87_def promote_sse_def scast_positive)

lemma hex_digits_eval:
  "hex_digits 0 = []"
  "hex_digits (Suc 0) = ''1''"
  "hex_digits (numeral k) = hex_digits (numeral k div 16) @ [hex_digit (numeral k mod 16)]"
  by (subst hex_digits.simps, simp add: hex_digit_def)+

lemma replicate_eval:
  "replicate 1 c = [c]" "replicate 2 c = [c, c]" "replicate 3 c = [c, c, c]"
  "replicate 4 c = [c, c, c, c]"
  by (simp_all add: numeral_2_eq_2 numeral_3_eq_3 eval_nat_numeral)

lemmas fmt_eval = fmt_04X_def hex_digits_eval hex_digit_def replicate_eval

lemma fmt_accepted:
  "fmt_04X (sse_a cfg) = (if strict_snan cfg then ''1900'' else ''1D00'')"
  "fmt_04X (sse_b cfg) = (if strict_snan cfg then ''1900'' else ''1F80'')"
  "fmt_04X (x87_a cfg) = (if strict_snan cfg then ''0032'' else ''003A'')"
  "fmt_04X (x87_b cfg) = ''003F''"
proof -
  have "fmt_04X 0x1900 = ''1900''" "fmt_04X 0x1D00 = ''1D00''" "fmt_04X 0x1F80 = ''1F80''"
    "fmt_04X 0x0032 = ''0032''" "fmt_04X 0x003A = ''003A''" "fmt_04X 0x003F = ''003F''"
    by (simp_all add: fmt_eval)
  then show "fmt_04X (sse_a cfg) = (if strict_snan cfg then ''1900'' else ''1D00'')"
  "fmt_04X (sse_b cfg) = (if strict_snan cfg then ''1900'' else ''1F80'')"
  "fmt_04X (x87_a cfg) = (if strict_snan cfg then ''0032'' else ''003A'')"
  "fmt_04X (x87_b cfg) = ''003F''"
    by (simp_all add: accepted_values)
qed



text \<open>The definitions that a run on concrete control words unfolds.\<close>

lemmas concrete_defs = build_def thread_def strict_snan_def accepted_values
  ret_sse_def ret_x87_def fegetenv_sse_def fegetenv_x87_def promote_sse_def promote_x87_def

section \<open>Classification\<close>

text \<open>
  C1. The guard classifies a captured environment as valid exactly when each field's
  masked value lies in that field's own accepted set. Combined layout: \<^verbatim>\<open>sse & 0xFF80\<close> is
  \<^verbatim>\<open>sse_a\<close> or \<^verbatim>\<open>sse_b\<close>, and \<^verbatim>\<open>x87 & 0x1F3F\<close> is \<^verbatim>\<open>x87_a\<close> or \<^verbatim>\<open>x87_b\<close>. Legacy
  layout: \<^verbatim>\<open>x87 & 0x1F3F\<close> is \<^verbatim>\<open>x87_a\<close> or \<^verbatim>\<open>x87_b\<close>. The two checks of the combined
  layout are independent: profile A's SSE value with profile B's x87 value is valid, and
  so is profile B's SSE value with profile A's x87 value.
\<close>

theorem valid_iff_each_field_accepted:
  "(ret_sse cfg fenv \<longleftrightarrow>
      ucast (sse_mode fenv AND 0xFF80) \<in> {sse_a cfg, sse_b cfg} \<and>
      ucast (x87_mode fenv AND 0x1F3F) \<in> {x87_a cfg, x87_b cfg}) \<and>
   (ret_x87 cfg w \<longleftrightarrow> ucast (w AND 0x1F3F) \<in> {x87_a cfg, x87_b cfg}) \<and>
   ret_sse cfg \<lparr>sse_mode = ucast (sse_a cfg), x87_mode = ucast (x87_b cfg)\<rparr> \<and>
   ret_sse cfg \<lparr>sse_mode = ucast (sse_b cfg), x87_mode = ucast (x87_a cfg)\<rparr>"
proof -
  have sse: "ret_sse cfg fenv \<longleftrightarrow>
      ucast (sse_mode fenv AND 0xFF80) \<in> {sse_a cfg, sse_b cfg} \<and>
      ucast (x87_mode fenv AND 0x1F3F) \<in> {x87_a cfg, x87_b cfg}"
    by (simp add: ret_sse_def promote_sse_mask promote_x87_mask)
  have x87: "ret_x87 cfg w \<longleftrightarrow> ucast (w AND 0x1F3F) \<in> {x87_a cfg, x87_b cfg}"
    by (simp add: ret_x87_def promote_x87_mask)
  have ab: "ret_sse cfg \<lparr>sse_mode = ucast (sse_a cfg), x87_mode = ucast (x87_b cfg)\<rparr>"
    by (simp add: ret_sse_def accepted_values promote_sse_def promote_x87_def)
  have ba: "ret_sse cfg \<lparr>sse_mode = ucast (sse_b cfg), x87_mode = ucast (x87_a cfg)\<rparr>"
    by (simp add: ret_sse_def accepted_values promote_sse_def promote_x87_def)
  from sse x87 ab ba show ?thesis by blast
qed

theorem valid_iff_each_field_accepted_witness:
  "ret_sse (build False True False) \<lparr>sse_mode = 0x1D3F, x87_mode = 0x207F\<rparr> \<and>
   \<not> ret_sse (build False True False) \<lparr>sse_mode = 0x1900, x87_mode = 0x003A\<rparr> \<and>
   ret_x87 (build True False True) 0x0072 \<and> \<not> ret_x87 (build True False True) 0x003A"
  using valid_iff_each_field_accepted [of "build False True False" "\<lparr>sse_mode = 0x1D3F, x87_mode = 0x207F\<rparr>" 0]
    valid_iff_each_field_accepted [of "build False True False" "\<lparr>sse_mode = 0x1900, x87_mode = 0x003A\<rparr>" 0]
    valid_iff_each_field_accepted [of "build True False True" "\<lparr>sse_mode = 0, x87_mode = 0\<rparr>" "0x0072"]
    valid_iff_each_field_accepted [of "build True False True" "\<lparr>sse_mode = 0, x87_mode = 0\<rparr>" "0x003A"]
  by (simp add: build_def strict_snan_def accepted_values)

section \<open>A valid environment\<close>

text \<open>
  C3. When the captured environment is classified as valid, the call has no effect: the
  thread state it returns is the one it was given but for the record of the read, so no
  line is logged, the control words are not written and no exception is raised. In the
  build without \<^verbatim>\<open>__SUPPORT_SNAN__\<close> this is the case of the combined layout at MXCSR
  \<^verbatim>\<open>0x1F80\<close> and FPUCW \<^verbatim>\<open>0x003F\<close>, and of the legacy layout at FPUCW \<^verbatim>\<open>0x003A\<close>.
\<close>

theorem valid_environment_untouched:
  "(streflop_sse cfg \<and> ret_sse cfg (fst (fegetenv_sse s)) \<longrightarrow>
      good_fpu_control_registers cfg p label s = s\<lparr>trace := trace s @ [FeGetEnv]\<rparr> \<and>
      warnings (emitted cfg p label s) = [] \<and> actions (emitted cfg p label s) = []) \<and>
   (\<not> streflop_sse cfg \<and> streflop_x87 cfg \<and> ret_x87 cfg (fst (fegetenv_x87 s)) \<longrightarrow>
      good_fpu_control_registers cfg p label s = s\<lparr>trace := trace s @ [FeGetEnv]\<rparr> \<and>
      warnings (emitted cfg p label s) = [] \<and> actions (emitted cfg p label s) = []) \<and>
   good_fpu_control_registers (build False True x87) p label (thread 0x1F80 0x003F) =
     \<lparr>mxcsr = 0x1F80, fpucw = 0x003F, trace = [FeGetEnv]\<rparr> \<and>
   good_fpu_control_registers (build False False True) p label (thread sse 0x003A) =
     \<lparr>mxcsr = sse, fpucw = 0x003A, trace = [FeGetEnv]\<rparr>"
proof -
  have c1: "ret_sse (build False True x87) (fst (fegetenv_sse (thread 0x1F80 0x003F)))"
    by (simp add: ret_sse_def fegetenv_sse_def thread_def accepted_values promote_sse_def
        promote_x87_def build_def strict_snan_def)
  have c2: "ret_x87 (build False False True) (fst (fegetenv_x87 (thread sse 0x003A)))"
    by (simp add: ret_x87_def fegetenv_x87_def thread_def accepted_values
        promote_x87_def build_def strict_snan_def)
  have "good_fpu_control_registers (build False True x87) p label (thread 0x1F80 0x003F) =
     \<lparr>mxcsr = 0x1F80, fpucw = 0x003F, trace = [FeGetEnv]\<rparr>"
    using c1 by (subst good_sse_valid) (simp_all add: build_def thread_def)
  moreover have "good_fpu_control_registers (build False False True) p label (thread sse 0x003A) =
     \<lparr>mxcsr = sse, fpucw = 0x003A, trace = [FeGetEnv]\<rparr>"
    using c2 by (subst good_x87_valid) (simp_all add: build_def thread_def)
  ultimately show ?thesis
    by (simp add: good_sse_valid good_x87_valid emitted_sse_valid emitted_x87_valid
        warnings_def actions_def)
qed

theorem valid_environment_untouched_witness:
  "streflop_sse (build True True False) \<and>
   ret_sse (build True True False) (fst (fegetenv_sse (thread 0x1900 0x0032))) \<and>
   good_fpu_control_registers (build True True False) ProfileA ''SimFrame'' (thread 0x1900 0x0032) =
     \<lparr>mxcsr = 0x1900, fpucw = 0x0032, trace = [FeGetEnv]\<rparr> \<and>
   \<not> streflop_sse (build False False True) \<and> streflop_x87 (build False False True) \<and>
   ret_x87 (build False False True) (fst (fegetenv_x87 (thread 0 0x203F))) \<and>
   good_fpu_control_registers (build False False True) ProfileA ''SimFrame'' (thread 0 0x203F) =
     \<lparr>mxcsr = 0, fpucw = 0x203F, trace = [FeGetEnv]\<rparr>"
proof -
  have h1: "streflop_sse (build True True False) \<and>
      ret_sse (build True True False) (fst (fegetenv_sse (thread 0x1900 0x0032)))"
    by (simp add: ret_sse_def fegetenv_sse_def thread_def accepted_values promote_sse_def
        promote_x87_def build_def strict_snan_def)
  have h2: "\<not> streflop_sse (build False False True) \<and> streflop_x87 (build False False True) \<and>
      ret_x87 (build False False True) (fst (fegetenv_x87 (thread 0 0x203F)))"
    by (simp add: ret_x87_def fegetenv_x87_def thread_def accepted_values
        promote_x87_def build_def strict_snan_def)
  show ?thesis
    using h1 h2
      valid_environment_untouched [of "build True True False" "thread 0x1900 0x0032" ProfileA "''SimFrame''"]
      valid_environment_untouched [of "build False False True" "thread 0 0x203F" ProfileA "''SimFrame''"]
    by (simp add: thread_def)
qed

section \<open>An invalid environment\<close>

text \<open>
  C4. When the captured environment is classified as invalid, the call logs, then calls
  \<^verbatim>\<open>streflop_init<streflop::Simple>\<close> once, and then, exactly in the builds where
  \<^verbatim>\<open>__SUPPORT_SNAN__\<close> is defined and \<^verbatim>\<open>USE_GML\<close> is not, calls \<^verbatim>\<open>feraiseexcept\<close> with
  the set of invalid operation, division by zero and overflow. In the other builds no
  exception is raised.
\<close>

theorem invalid_environment_reset:
  "(streflop_sse cfg \<and> \<not> ret_sse cfg (fst (fegetenv_sse s)) \<longrightarrow>
      emitted cfg p label s =
        [FeGetEnv,
         Log L_WARNING (msg_sse cfg (fst (fegetenv_sse s)) label),
         Log L_WARNING (msg_x87 cfg (fst (fegetenv_sse s)) label),
         StreflopInit Simple] @
        (if strict_snan cfg then [FeRaiseExcept {FE_INVALID, FE_DIVBYZERO, FE_OVERFLOW}] else []) \<and>
      actions (emitted cfg p label s) =
        StreflopInit Simple #
        (if strict_snan cfg then [FeRaiseExcept {FE_INVALID, FE_DIVBYZERO, FE_OVERFLOW}] else [])) \<and>
   (\<not> streflop_sse cfg \<and> streflop_x87 cfg \<and> \<not> ret_x87 cfg (fst (fegetenv_x87 s)) \<longrightarrow>
      emitted cfg p label s =
        [FeGetEnv,
         Log L_WARNING (msg_fpucw cfg (fst (fegetenv_x87 s)) label),
         StreflopInit Simple] @
        (if strict_snan cfg then [FeRaiseExcept {FE_INVALID, FE_DIVBYZERO, FE_OVERFLOW}] else []) \<and>
      actions (emitted cfg p label s) =
        StreflopInit Simple #
        (if strict_snan cfg then [FeRaiseExcept {FE_INVALID, FE_DIVBYZERO, FE_OVERFLOW}] else []))"
  by (simp add: emitted_sse_invalid emitted_x87_invalid actions_def)

theorem invalid_environment_reset_witness:
  "streflop_sse (build True True False) \<and>
   \<not> ret_sse (build True True False) (fst (fegetenv_sse (thread 0x1F80 0x003F))) \<and>
   actions (emitted (build True True False) ProfileA ''SimFrame'' (thread 0x1F80 0x003F)) =
     [StreflopInit Simple, FeRaiseExcept {FE_INVALID, FE_DIVBYZERO, FE_OVERFLOW}] \<and>
   \<not> streflop_sse (build False False True) \<and> streflop_x87 (build False False True) \<and>
   \<not> ret_x87 (build False False True) (fst (fegetenv_x87 (thread 0 0x033F))) \<and>
   actions (emitted (build False False True) ProfileA ''SimFrame'' (thread 0 0x033F)) =
     [StreflopInit Simple]"
proof -
  have h1: "streflop_sse (build True True False) \<and>
      \<not> ret_sse (build True True False) (fst (fegetenv_sse (thread 0x1F80 0x003F)))"
    by (simp add: concrete_defs)
  have h2: "\<not> streflop_sse (build False False True) \<and> streflop_x87 (build False False True) \<and>
      \<not> ret_x87 (build False False True) (fst (fegetenv_x87 (thread 0 0x033F)))"
    by (simp add: concrete_defs)
  have s: "strict_snan (build True True False)" "\<not> strict_snan (build False False True)"
    by (simp_all add: build_def strict_snan_def)
  show ?thesis
    using h1 h2 s
      invalid_environment_reset [of "build True True False" "thread 0x1F80 0x003F" ProfileA "''SimFrame''"]
      invalid_environment_reset [of "build False False True" "thread 0 0x033F" ProfileA "''SimFrame''"]
    by (simp add: actions_def)
qed

section \<open>The accepted constants\<close>

text \<open>
  C7. The accepted constants are those the spec states. With strict signalling-NaN
  support (\<^verbatim>\<open>__SUPPORT_SNAN__\<close> defined, \<^verbatim>\<open>USE_GML\<close> not): \<^verbatim>\<open>sse_a = 0x1937 & 0xFF80\<close>,
  \<^verbatim>\<open>sse_b = 0x1925 & 0xFF80\<close>, \<^verbatim>\<open>x87_a = 0x0072 & 0x1F3F\<close> and \<^verbatim>\<open>x87_b = 0x003F & 0x1F3F\<close>
  (line 67 writes \<^verbatim>\<open>0x003F\<close> unmasked, which is the same value). Without it: \<^verbatim>\<open>0x1D00\<close>,
  \<^verbatim>\<open>0x1F80\<close>, \<^verbatim>\<open>0x003A\<close> and \<^verbatim>\<open>0x003F\<close>.
\<close>

theorem accepted_constants:
  "(strict_snan cfg \<longrightarrow>
      sse_a cfg = 0x1937 AND 0xFF80 \<and> sse_b cfg = 0x1925 AND 0xFF80 \<and>
      x87_a cfg = 0x0072 AND 0x1F3F \<and> x87_b cfg = 0x003F AND 0x1F3F) \<and>
   (\<not> strict_snan cfg \<longrightarrow>
      sse_a cfg = 0x1D00 \<and> sse_b cfg = 0x1F80 \<and> x87_a cfg = 0x003A \<and> x87_b cfg = 0x003F)"
  by (simp add: sse_a_def sse_b_def x87_a_def x87_b_def)

theorem accepted_constants_witness:
  "strict_snan (build True True False) \<and>
   sse_a (build True True False) = 0x1900 \<and> sse_b (build True True False) = 0x1900 \<and>
   x87_a (build True True False) = 0x0032 \<and> x87_b (build True True False) = 0x003F \<and>
   \<not> strict_snan (build False True False) \<and>
   sse_a (build False True False) = 0x1D00 \<and> sse_b (build False True False) = 0x1F80 \<and>
   x87_a (build False True False) = 0x003A \<and> x87_b (build False True False) = 0x003F"
proof -
  have s: "strict_snan (build True True False)" "\<not> strict_snan (build False True False)"
    by (simp_all add: build_def strict_snan_def)
  show ?thesis
    using s accepted_constants [of "build True True False"]
      accepted_constants [of "build False True False"]
    by simp
qed

text \<open>
  C8 as the spec states it, that the two accepted values of each register family differ
  in every build, fails in the strict build: \<^verbatim>\<open>0x1937\<close> and \<^verbatim>\<open>0x1925\<close> differ only in bits
  that the mask \<^verbatim>\<open>0xFF80\<close> clears, so \<^verbatim>\<open>sse_a\<close> and \<^verbatim>\<open>sse_b\<close> are both \<^verbatim>\<open>0x1900\<close>.
\<close>

theorem accepted_values_distinct_counterexample:
  "\<not> (sse_a (build True True False) \<noteq> sse_b (build True True False) \<and>
      x87_a (build True True False) \<noteq> x87_b (build True True False))"
  by (simp add: build_def strict_snan_def sse_a_def sse_b_def)

text \<open>
  C8, amended. The two accepted x87 values differ in every build. The two accepted SSE
  values differ in the build without strict signalling-NaN support; in the strict build
  they are the same value, \<^verbatim>\<open>0x1900\<close>.
\<close>

theorem accepted_values_distinct_amended:
  "x87_a cfg \<noteq> x87_b cfg \<and>
   (\<not> strict_snan cfg \<longrightarrow> sse_a cfg \<noteq> sse_b cfg) \<and>
   (strict_snan cfg \<longrightarrow> sse_a cfg = 0x1900 \<and> sse_b cfg = 0x1900)"
  by (simp add: accepted_values)

theorem accepted_values_distinct_amended_witness:
  "\<not> strict_snan (build False True False) \<and>
   sse_a (build False True False) \<noteq> sse_b (build False True False) \<and>
   x87_a (build False True False) \<noteq> x87_b (build False True False) \<and>
   strict_snan (build True True False) \<and>
   sse_a (build True True False) = 0x1900 \<and> sse_b (build True True False) = 0x1900 \<and>
   x87_a (build True True False) \<noteq> x87_b (build True True False)"
proof -
  have s: "strict_snan (build True True False)" "\<not> strict_snan (build False True False)"
    by (simp_all add: build_def strict_snan_def)
  show ?thesis
    using s accepted_values_distinct_amended [of "build True True False"]
      accepted_values_distinct_amended [of "build False True False"]
    by simp
qed

section \<open>Termination and shape of a call\<close>

text \<open>
  C9. For every label and every thread state the guard returns a thread state: the source
  has no loop, no \<^verbatim>\<open>throw\<close> and no early exit, and the model is a total function without
  an error result. The call only appends to the trace; what it appends holds at most one
  reset and at most one read of the environment, and no read follows the reset.
\<close>

theorem returns_after_one_pass:
  "trace (good_fpu_control_registers cfg p label s) = trace s @ emitted cfg p label s \<and>
   length (filter is_reset (emitted cfg p label s)) \<le> 1 \<and>
   length (filter (\<lambda>e. e = FeGetEnv) (emitted cfg p label s)) \<le> 1 \<and>
   FeGetEnv \<notin> set (dropWhile (\<lambda>e. \<not> is_reset e) (emitted cfg p label s))"
proof -
  have "length (filter is_reset (emitted cfg p label s)) \<le> 1 \<and>
   length (filter (\<lambda>e. e = FeGetEnv) (emitted cfg p label s)) \<le> 1 \<and>
   FeGetEnv \<notin> set (dropWhile (\<lambda>e. \<not> is_reset e) (emitted cfg p label s))"
  proof (cases "streflop_sse cfg")
    case True
    then show ?thesis
      by (cases "ret_sse cfg (fst (fegetenv_sse s))")
         (simp_all add: emitted_sse_valid emitted_sse_invalid)
  next
    case sse: False
    show ?thesis
    proof (cases "streflop_x87 cfg")
      case True
      with sse show ?thesis
        by (cases "ret_x87 cfg (fst (fegetenv_x87 s))")
           (simp_all add: emitted_x87_valid emitted_x87_invalid)
    next
      case False
      with sse show ?thesis by (simp add: emitted_neither)
    qed
  qed
  then show ?thesis by (simp add: trace_extends)
qed

theorem returns_after_one_pass_witness:
  "length (filter is_reset (emitted (build True True False) ProfileA ''SimFrame'' (thread 0x1F80 0x033F))) = 1 \<and>
   trace (good_fpu_control_registers (build True True False) ProfileA ''SimFrame'' (thread 0x1F80 0x033F)) =
     emitted (build True True False) ProfileA ''SimFrame'' (thread 0x1F80 0x033F)"
proof -
  have h1: "streflop_sse (build True True False)" by (simp add: build_def)
  have h2: "\<not> ret_sse (build True True False) (fst (fegetenv_sse (thread 0x1F80 0x033F)))"
    by (simp add: concrete_defs)
  have "trace (thread 0x1F80 0x033F) = []" by (simp add: thread_def)
  then show ?thesis
    using returns_after_one_pass [of "build True True False" ProfileA "''SimFrame''" "thread 0x1F80 0x033F"]
    by (simp add: emitted_sse_invalid [OF h1 h2])
qed

section \<open>Reserved bits\<close>

text \<open>
  C10. Two thread states whose control words agree on the bits the masks keep (FPUCW under
  \<^verbatim>\<open>0x1F3F\<close> and, in the combined layout, MXCSR under \<^verbatim>\<open>0xFF80\<close>) are classified alike, and
  the calls on them perform the same reset and raise the same exceptions.
\<close>

theorem reserved_bits_ignored:
  assumes x87: "fpucw s1 AND 0x1F3F = fpucw s2 AND 0x1F3F"
    and sse: "streflop_sse cfg \<Longrightarrow> mxcsr s1 AND 0xFF80 = mxcsr s2 AND 0xFF80"
  shows "(streflop_sse cfg \<longrightarrow>
            ret_sse cfg (fst (fegetenv_sse s1)) = ret_sse cfg (fst (fegetenv_sse s2))) \<and>
         ret_x87 cfg (fst (fegetenv_x87 s1)) = ret_x87 cfg (fst (fegetenv_x87 s2)) \<and>
         actions (emitted cfg p label s1) = actions (emitted cfg p label s2)"
proof -
  have r87: "ret_x87 cfg (fst (fegetenv_x87 s1)) = ret_x87 cfg (fst (fegetenv_x87 s2))"
    using x87 by (simp add: ret_x87_def fegetenv_x87_def promote_x87_mask)
  have rsse: "ret_sse cfg (fst (fegetenv_sse s1)) = ret_sse cfg (fst (fegetenv_sse s2))"
    if "streflop_sse cfg"
    using x87 sse [OF that] by (simp add: ret_sse_def fegetenv_sse_def promote_x87_mask promote_sse_mask)
  have "actions (emitted cfg p label s1) = actions (emitted cfg p label s2)"
  proof (cases "streflop_sse cfg")
    case True
    with rsse show ?thesis
      by (cases "ret_sse cfg (fst (fegetenv_sse s2))")
         (simp_all add: emitted_sse_valid emitted_sse_invalid actions_def)
  next
    case nsse: False
    show ?thesis
    proof (cases "streflop_x87 cfg")
      case True
      with nsse r87 show ?thesis
        by (cases "ret_x87 cfg (fst (fegetenv_x87 s2))")
           (simp_all add: emitted_x87_valid emitted_x87_invalid actions_def)
    next
      case False
      with nsse show ?thesis by (simp add: emitted_neither)
    qed
  qed
  with r87 rsse show ?thesis by blast
qed

theorem reserved_bits_ignored_witness:
  "fpucw (thread 0x1F80 0x037F) AND 0x1F3F = fpucw (thread 0x1FBF 0xE33F) AND 0x1F3F \<and>
   mxcsr (thread 0x1F80 0x037F) AND 0xFF80 = mxcsr (thread 0x1FBF 0xE33F) AND 0xFF80 \<and>
   thread 0x1F80 0x037F \<noteq> thread 0x1FBF 0xE33F \<and>
   ret_sse (build False True False) (fst (fegetenv_sse (thread 0x1F80 0x037F))) =
     ret_sse (build False True False) (fst (fegetenv_sse (thread 0x1FBF 0xE33F))) \<and>
   actions (emitted (build False True False) ProfileB ''a'' (thread 0x1F80 0x037F)) =
     actions (emitted (build False True False) ProfileB ''a'' (thread 0x1FBF 0xE33F))"
proof -
  have h1: "fpucw (thread 0x1F80 0x037F) AND 0x1F3F = fpucw (thread 0x1FBF 0xE33F) AND 0x1F3F"
    by (simp add: thread_def)
  have h2: "mxcsr (thread 0x1F80 0x037F) AND 0xFF80 = mxcsr (thread 0x1FBF 0xE33F) AND 0xFF80"
    by (simp add: thread_def)
  have h3: "streflop_sse (build False True False)" by (simp add: build_def)
  have h4: "thread 0x1F80 0x037F \<noteq> thread 0x1FBF 0xE33F" by (simp add: thread_def)
  show ?thesis
    using h1 h2 h3 h4
      reserved_bits_ignored [OF h1 h2, of "build False True False" ProfileB "''a''"]
    by simp
qed

section \<open>The warning lines\<close>

lemmas msg_defs = msg_sse_def msg_x87_def msg_fpucw_def FUNCTION_def quoted_def

text \<open>
  C2 as the spec states it, that an environment with exactly one field outside its accepted
  set yields exactly one warning line, for the failing field only, fails. Lines 84 and 85
  are both inside the one \<^verbatim>\<open>if (!ret)\<close>: in the build without \<^verbatim>\<open>__SUPPORT_SNAN__\<close>, MXCSR
  \<^verbatim>\<open>0x1900\<close> is rejected and FPUCW \<^verbatim>\<open>0x003A\<close> is accepted, and the call logs two lines, the
  second one for the accepted x87 field.
\<close>

theorem one_failing_field_counterexample:
  "promote_x87 0x003A AND 0x1F3F = x87_a (build False True False) \<and>
   promote_sse 0x1900 AND 0xFF80 \<noteq> sse_a (build False True False) \<and>
   promote_sse 0x1900 AND 0xFF80 \<noteq> sse_b (build False True False) \<and>
   warnings (emitted (build False True False) ProfileB ''SimFrame'' (thread 0x1900 0x003A)) =
     [''[good_fpu_control_registers] Sync warning: (env.sse_mode) MXCSR 0x1900 instead of 0x1D00 or 0x1F80 ('' @
        [CHR 0x22] @ ''SimFrame'' @ [CHR 0x22] @ '')'',
      ''[good_fpu_control_registers] Sync warning: (env.x87_mode) FPUCW 0x003A instead of 0x003A or 0x003F ('' @
        [CHR 0x22] @ ''SimFrame'' @ [CHR 0x22] @ '')''] \<and>
   length (warnings (emitted (build False True False) ProfileB ''SimFrame'' (thread 0x1900 0x003A))) \<noteq> 1"
proof -
  have inv: "\<not> ret_sse (build False True False) (fst (fegetenv_sse (thread 0x1900 0x003A)))"
    by (simp add: concrete_defs)
  have sse: "streflop_sse (build False True False)" by (simp add: build_def)
  have ns: "\<not> strict_snan (build False True False)" by (simp add: build_def strict_snan_def)
  have f: "fmt_04X 0x1900 = ''1900''" "fmt_04X 0x003A = ''003A''" "fmt_04X 0x1D00 = ''1D00''"
    "fmt_04X 0x1F80 = ''1F80''" "fmt_04X 0x003F = ''003F''"
    by (simp_all add: fmt_eval)
  have w: "warnings (emitted (build False True False) ProfileB ''SimFrame'' (thread 0x1900 0x003A)) =
     [''[good_fpu_control_registers] Sync warning: (env.sse_mode) MXCSR 0x1900 instead of 0x1D00 or 0x1F80 ('' @
        [CHR 0x22] @ ''SimFrame'' @ [CHR 0x22] @ '')'',
      ''[good_fpu_control_registers] Sync warning: (env.x87_mode) FPUCW 0x003A instead of 0x003A or 0x003F ('' @
        [CHR 0x22] @ ''SimFrame'' @ [CHR 0x22] @ '')'']"
    unfolding emitted_sse_invalid [OF sse inv]
    by (simp add: ns warnings_def msg_defs fegetenv_sse_def
        thread_def promote_sse_def promote_x87_def accepted_values f)
  have m: "promote_x87 0x003A AND 0x1F3F = x87_a (build False True False)"
    "promote_sse 0x1900 AND 0xFF80 \<noteq> sse_a (build False True False)"
    "promote_sse 0x1900 AND 0xFF80 \<noteq> sse_b (build False True False)"
    by (simp_all add: concrete_defs)
  from m show ?thesis unfolding w by simp
qed

text \<open>
  C2, amended. In the combined layout every invalid environment, whether one field or both
  are outside their accepted sets, yields exactly two warning lines: the line of the SSE
  field, then the line of the x87 field.
\<close>

theorem combined_layout_logs_both_fields:
  assumes "streflop_sse cfg" and "\<not> ret_sse cfg (fst (fegetenv_sse s))"
  shows "warnings (emitted cfg p label s) =
     [msg_sse cfg (fst (fegetenv_sse s)) label, msg_x87 cfg (fst (fegetenv_sse s)) label]"
  by (simp add: emitted_sse_invalid [OF assms] warnings_def)

theorem combined_layout_logs_both_fields_witness:
  "streflop_sse (build False True False) \<and>
   \<not> ret_sse (build False True False) (fst (fegetenv_sse (thread 0x1F80 0x033F))) \<and>
   warnings (emitted (build False True False) ProfileB ''SimFrame'' (thread 0x1F80 0x033F)) =
     [msg_sse (build False True False) \<lparr>sse_mode = 0x1F80, x87_mode = 0x033F\<rparr> ''SimFrame'',
      msg_x87 (build False True False) \<lparr>sse_mode = 0x1F80, x87_mode = 0x033F\<rparr> ''SimFrame'']"
proof -
  have h1: "streflop_sse (build False True False)" by (simp add: build_def)
  have h2: "\<not> ret_sse (build False True False) (fst (fegetenv_sse (thread 0x1F80 0x033F)))"
    by (simp add: concrete_defs)
  show ?thesis
    using h1 h2 combined_layout_logs_both_fields [OF h1 h2, of ProfileB "''SimFrame''"]
    by (simp add: fegetenv_sse_def thread_def)
qed

text \<open>
  C5 as the spec states it, that each warning line shows the masked value of the field,
  fails. The \<^verbatim>\<open>LOG_L\<close> calls pass the field as captured. In the legacy layout without
  \<^verbatim>\<open>__SUPPORT_SNAN__\<close>, the control word \<^verbatim>\<open>0x037F\<close> has the masked value \<^verbatim>\<open>0x033F\<close>, is
  rejected, and the line shows \<^verbatim>\<open>0x037F\<close>; \<^verbatim>\<open>033F\<close> occurs nowhere in it.
\<close>

theorem warning_shows_masked_value_counterexample:
  "\<not> ret_x87 (build False False True) (fst (fegetenv_x87 (thread 0 0x037F))) \<and>
   promote_x87 0x037F AND 0x1F3F = 0x033F \<and>
   warnings (emitted (build False False True) ProfileB ''SimFrame'' (thread 0 0x037F)) =
     [''[good_fpu_control_registers] Sync warning: FPUCW 0x037F instead of 0x003A or 0x003F ('' @
        [CHR 0x22] @ ''SimFrame'' @ [CHR 0x22] @ '')''] \<and>
   \<not> sublist ''033F'' (hd (warnings (emitted (build False False True) ProfileB ''SimFrame'' (thread 0 0x037F))))"
proof -
  have nsse: "\<not> streflop_sse (build False False True)" and x87: "streflop_x87 (build False False True)"
    by (simp_all add: build_def)
  have inv: "\<not> ret_x87 (build False False True) (fst (fegetenv_x87 (thread 0 0x037F)))"
    by (simp add: concrete_defs)
  have ns: "\<not> strict_snan (build False False True)" by (simp add: build_def strict_snan_def)
  have f: "fmt_04X 0x037F = ''037F''" "fmt_04X 0x003A = ''003A''" "fmt_04X 0x003F = ''003F''"
    by (simp_all add: fmt_eval)
  have w: "warnings (emitted (build False False True) ProfileB ''SimFrame'' (thread 0 0x037F)) =
     [''[good_fpu_control_registers] Sync warning: FPUCW 0x037F instead of 0x003A or 0x003F ('' @
        [CHR 0x22] @ ''SimFrame'' @ [CHR 0x22] @ '')'']"
    unfolding emitted_x87_invalid [OF nsse x87 inv]
    by (simp add: ns warnings_def msg_defs fegetenv_x87_def thread_def promote_x87_def
        accepted_values f)
  have m: "promote_x87 0x037F AND 0x1F3F = 0x033F" by (simp add: promote_x87_def)
  have s: "\<not> sublist ''033F''
      (''[good_fpu_control_registers] Sync warning: FPUCW 0x037F instead of 0x003A or 0x003F ('' @
        [CHR 0x22] @ ''SimFrame'' @ [CHR 0x22] @ '')'')"
    by (simp add: sublist_code prefix_code)
  from inv m s show ?thesis unfolding w by simp
qed

text \<open>
  C5, amended. For every invalid environment each warning line holds the name of the
  function, the name of the field (\<^verbatim>\<open>(env.sse_mode) MXCSR\<close>, \<^verbatim>\<open>(env.x87_mode) FPUCW\<close>, or
  \<^verbatim>\<open>FPUCW\<close> in the legacy layout), the field as captured, without the mask, the two accepted
  values of that field, and the label between double quotes. Each number is converted by
  \<^verbatim>\<open>%04X\<close>, which gives exactly four hexadecimal digits for the accepted values, for the
  SSE field, and for an x87 control word whose bit 15 is clear. In the legacy layout
  without \<^verbatim>\<open>__SUPPORT_SNAN__\<close> the control word \<^verbatim>\<open>0x033F\<close> yields one warning, with
  \<^verbatim>\<open>0x033F\<close>, \<^verbatim>\<open>0x003A\<close> and \<^verbatim>\<open>0x003F\<close>, followed by the reset.
\<close>

theorem warning_line_contents:
  "(streflop_sse cfg \<and> \<not> ret_sse cfg (fst (fegetenv_sse s)) \<longrightarrow>
      warnings (emitted cfg p label s) =
        [''[good_fpu_control_registers] Sync warning: (env.sse_mode) MXCSR 0x'' @
           fmt_04X (promote_sse (mxcsr s)) @ '' instead of 0x'' @ fmt_04X (sse_a cfg) @
           '' or 0x'' @ fmt_04X (sse_b cfg) @ '' ('' @ [CHR 0x22] @ label @ [CHR 0x22] @ '')'',
         ''[good_fpu_control_registers] Sync warning: (env.x87_mode) FPUCW 0x'' @
           fmt_04X (promote_x87 (fpucw s)) @ '' instead of 0x'' @ fmt_04X (x87_a cfg) @
           '' or 0x'' @ fmt_04X (x87_b cfg) @ '' ('' @ [CHR 0x22] @ label @ [CHR 0x22] @ '')'']) \<and>
   (\<not> streflop_sse cfg \<and> streflop_x87 cfg \<and> \<not> ret_x87 cfg (fst (fegetenv_x87 s)) \<longrightarrow>
      warnings (emitted cfg p label s) =
        [''[good_fpu_control_registers] Sync warning: FPUCW 0x'' @
           fmt_04X (promote_x87 (fpucw s)) @ '' instead of 0x'' @ fmt_04X (x87_a cfg) @
           '' or 0x'' @ fmt_04X (x87_b cfg) @ '' ('' @ [CHR 0x22] @ label @ [CHR 0x22] @ '')'']) \<and>
   length (fmt_04X (sse_a cfg)) = 4 \<and> length (fmt_04X (sse_b cfg)) = 4 \<and>
   length (fmt_04X (x87_a cfg)) = 4 \<and> length (fmt_04X (x87_b cfg)) = 4 \<and>
   length (fmt_04X (promote_sse (mxcsr s))) = 4 \<and>
   (\<not> bit (fpucw s) 15 \<longrightarrow> length (fmt_04X (promote_x87 (fpucw s))) = 4) \<and>
   emitted (build False False True) p label (thread sse 0x033F) =
     [FeGetEnv,
      Log L_WARNING
        (''[good_fpu_control_registers] Sync warning: FPUCW 0x033F instead of 0x003A or 0x003F ('' @
           [CHR 0x22] @ label @ [CHR 0x22] @ '')''),
      StreflopInit Simple]"
proof -
  have combined: "warnings (emitted cfg p label s) =
        [''[good_fpu_control_registers] Sync warning: (env.sse_mode) MXCSR 0x'' @
           fmt_04X (promote_sse (mxcsr s)) @ '' instead of 0x'' @ fmt_04X (sse_a cfg) @
           '' or 0x'' @ fmt_04X (sse_b cfg) @ '' ('' @ [CHR 0x22] @ label @ [CHR 0x22] @ '')'',
         ''[good_fpu_control_registers] Sync warning: (env.x87_mode) FPUCW 0x'' @
           fmt_04X (promote_x87 (fpucw s)) @ '' instead of 0x'' @ fmt_04X (x87_a cfg) @
           '' or 0x'' @ fmt_04X (x87_b cfg) @ '' ('' @ [CHR 0x22] @ label @ [CHR 0x22] @ '')'']"
    if "streflop_sse cfg" and "\<not> ret_sse cfg (fst (fegetenv_sse s))"
    unfolding emitted_sse_invalid [OF that]
    by (simp add: warnings_def msg_defs fegetenv_sse_def)
  have legacy: "warnings (emitted cfg p label s) =
        [''[good_fpu_control_registers] Sync warning: FPUCW 0x'' @
           fmt_04X (promote_x87 (fpucw s)) @ '' instead of 0x'' @ fmt_04X (x87_a cfg) @
           '' or 0x'' @ fmt_04X (x87_b cfg) @ '' ('' @ [CHR 0x22] @ label @ [CHR 0x22] @ '')'']"
    if "\<not> streflop_sse cfg" and "streflop_x87 cfg" and "\<not> ret_x87 cfg (fst (fegetenv_x87 s))"
    unfolding emitted_x87_invalid [OF that]
    by (simp add: warnings_def msg_defs fegetenv_x87_def)
  have widths: "length (fmt_04X (sse_a cfg)) = 4" "length (fmt_04X (sse_b cfg)) = 4"
    "length (fmt_04X (x87_a cfg)) = 4" "length (fmt_04X (x87_b cfg)) = 4"
    by (simp_all add: fmt_accepted)
  have nsse: "\<not> streflop_sse (build False False True)" and x87: "streflop_x87 (build False False True)"
    by (simp_all add: build_def)
  have inv: "\<not> ret_x87 (build False False True) (fst (fegetenv_x87 (thread sse 0x033F)))"
    by (simp add: concrete_defs)
  have ns: "\<not> strict_snan (build False False True)" by (simp add: build_def strict_snan_def)
  have f: "fmt_04X 0x033F = ''033F''" "fmt_04X 0x003A = ''003A''" "fmt_04X 0x003F = ''003F''"
    by (simp_all add: fmt_eval)
  have scenario: "emitted (build False False True) p label (thread sse 0x033F) =
     [FeGetEnv,
      Log L_WARNING
        (''[good_fpu_control_registers] Sync warning: FPUCW 0x033F instead of 0x003A or 0x003F ('' @
           [CHR 0x22] @ label @ [CHR 0x22] @ '')''),
      StreflopInit Simple]"
    unfolding emitted_x87_invalid [OF nsse x87 inv]
    by (simp add: ns msg_defs fegetenv_x87_def thread_def promote_x87_def accepted_values f)
  from combined legacy widths fmt_04X_sse_four [of "mxcsr s"] fmt_04X_x87_four [of "fpucw s"] scenario
  show ?thesis by blast
qed

theorem warning_line_contents_witness:
  "streflop_sse (build True True False) \<and>
   \<not> ret_sse (build True True False) (fst (fegetenv_sse (thread 0x1F80 0x037F))) \<and>
   \<not> bit (fpucw (thread 0x1F80 0x037F)) 15 \<and>
   warnings (emitted (build True True False) ProfileA ''SimFrame'' (thread 0x1F80 0x037F)) =
     [''[good_fpu_control_registers] Sync warning: (env.sse_mode) MXCSR 0x1F80 instead of 0x1900 or 0x1900 ('' @
        [CHR 0x22] @ ''SimFrame'' @ [CHR 0x22] @ '')'',
      ''[good_fpu_control_registers] Sync warning: (env.x87_mode) FPUCW 0x037F instead of 0x0032 or 0x003F ('' @
        [CHR 0x22] @ ''SimFrame'' @ [CHR 0x22] @ '')''] \<and>
   \<not> streflop_sse (build False False True) \<and> streflop_x87 (build False False True) \<and>
   \<not> ret_x87 (build False False True) (fst (fegetenv_x87 (thread 0 0x0C3F))) \<and>
   warnings (emitted (build False False True) ProfileA ''SimFrame'' (thread 0 0x0C3F)) =
     [''[good_fpu_control_registers] Sync warning: FPUCW 0x0C3F instead of 0x003A or 0x003F ('' @
        [CHR 0x22] @ ''SimFrame'' @ [CHR 0x22] @ '')'']"
proof -
  have h1: "streflop_sse (build True True False) \<and>
      \<not> ret_sse (build True True False) (fst (fegetenv_sse (thread 0x1F80 0x037F)))"
    by (simp add: concrete_defs)
  have h2: "\<not> streflop_sse (build False False True) \<and> streflop_x87 (build False False True) \<and>
      \<not> ret_x87 (build False False True) (fst (fegetenv_x87 (thread 0 0x0C3F)))"
    by (simp add: concrete_defs)
  have h3: "\<not> bit (fpucw (thread 0x1F80 0x037F)) 15"
    by (simp add: thread_def bit_numeral_word_iff)
  have s: "strict_snan (build True True False)" "\<not> strict_snan (build False False True)"
    by (simp_all add: build_def strict_snan_def)
  have f: "fmt_04X 0x1F80 = ''1F80''" "fmt_04X 0x037F = ''037F''" "fmt_04X 0x0C3F = ''0C3F''"
    by (simp_all add: fmt_eval)
  have v: "promote_sse (mxcsr (thread 0x1F80 0x037F)) = 0x1F80"
    "promote_x87 (fpucw (thread 0x1F80 0x037F)) = 0x037F"
    "promote_x87 (fpucw (thread 0 0x0C3F)) = 0x0C3F"
    by (simp_all add: thread_def promote_sse_def promote_x87_def)
  show ?thesis
    using h1 h2 h3
      warning_line_contents [of "build True True False" "thread 0x1F80 0x037F" ProfileA "''SimFrame''"]
      warning_line_contents [of "build False False True" "thread 0 0x0C3F" ProfileA "''SimFrame''"]
    by (simp add: v f s fmt_accepted)
qed

section \<open>A second call\<close>

text \<open>
  Whichever accepted profile the reduced-precision mode establishes, the control words it
  leaves pass the check of either layout.
\<close>

lemma profile_accepted:
  "ret_sse cfg \<lparr>sse_mode = ucast (profile_sse cfg p), x87_mode = ucast (profile_x87 cfg p)\<rparr>"
  "ret_x87 cfg (ucast (profile_x87 cfg p))"
  by (cases p; simp add: ret_sse_def ret_x87_def profile_sse_def profile_x87_def accepted_values
      promote_sse_def promote_x87_def)+

text \<open>
  C6. After a call that performed a correction, an immediately following call, with any
  label, classifies the environment as valid, logs nothing and resets nothing: it only
  reads the environment.
\<close>

theorem second_call_finds_valid:
  assumes "filter is_reset (emitted cfg p l1 s) \<noteq> []"
  shows "(if streflop_sse cfg
          then ret_sse cfg (fst (fegetenv_sse (good_fpu_control_registers cfg p l1 s)))
          else ret_x87 cfg (fst (fegetenv_x87 (good_fpu_control_registers cfg p l1 s)))) \<and>
         emitted cfg p l2 (good_fpu_control_registers cfg p l1 s) = [FeGetEnv] \<and>
         good_fpu_control_registers cfg p l2 (good_fpu_control_registers cfg p l1 s) =
           (good_fpu_control_registers cfg p l1 s)
             \<lparr>trace := trace (good_fpu_control_registers cfg p l1 s) @ [FeGetEnv]\<rparr>"
proof (cases "streflop_sse cfg")
  case True
  show ?thesis
  proof (cases "ret_sse cfg (fst (fegetenv_sse s))")
    case valid: True
    with True assms show ?thesis by (simp add: emitted_sse_valid)
  next
    case False
    have "ret_sse cfg (fst (fegetenv_sse (good_fpu_control_registers cfg p l1 s)))"
      by (simp add: good_sse_invalid [OF True False] fegetenv_sse_def profile_accepted)
    with True show ?thesis by (simp add: good_sse_valid emitted_sse_valid)
  qed
next
  case nsse: False
  show ?thesis
  proof (cases "streflop_x87 cfg")
    case True
    show ?thesis
    proof (cases "ret_x87 cfg (fst (fegetenv_x87 s))")
      case valid: True
      with nsse True assms show ?thesis by (simp add: emitted_x87_valid)
    next
      case False
      have "ret_x87 cfg (fst (fegetenv_x87 (good_fpu_control_registers cfg p l1 s)))"
        by (simp add: good_x87_invalid [OF nsse True False] fegetenv_x87_def profile_accepted)
      with nsse True show ?thesis by (simp add: good_x87_valid emitted_x87_valid)
    qed
  next
    case False
    with nsse assms show ?thesis by (simp add: emitted_neither)
  qed
qed

theorem second_call_finds_valid_witness:
  "filter is_reset (emitted (build True True False) ProfileA ''first'' (thread 0x1F80 0x033F)) \<noteq> [] \<and>
   emitted (build True True False) ProfileA ''second''
     (good_fpu_control_registers (build True True False) ProfileA ''first'' (thread 0x1F80 0x033F)) = [FeGetEnv]"
proof -
  have h1: "streflop_sse (build True True False)" by (simp add: build_def)
  have h2: "\<not> ret_sse (build True True False) (fst (fegetenv_sse (thread 0x1F80 0x033F)))"
    by (simp add: concrete_defs)
  have h: "filter is_reset (emitted (build True True False) ProfileA ''first'' (thread 0x1F80 0x033F)) \<noteq> []"
    by (simp add: emitted_sse_invalid [OF h1 h2])
  show ?thesis
    using h second_call_finds_valid [OF h, of "''second''"] by simp
qed

end
